theory Spec2Isabelle
  imports Main "HOL-Library.Char_ord" "HOL-Library.List_Lexorder" "HOL-Library.Multiset"
begin

section \<open>Errors\<close>

text \<open>
  Every error return and every panic of the Go sources is a value of this type; a Go
  function returning \<open>(v, error)\<close> becomes a function into \<open>error + 'a\<close>, with
  \<open>Inl\<close> for the error.
\<close>

datatype error =
    JsonError
  | InvalidOp string
  | MoreThanOneResult string
  | EsError
  | IoError
  | ContextError
  | MasterUserError
  | Panic

section \<open>Operation (internal/types/op/Op.go)\<close>

text \<open>
  \<open>type Operation int\<close> with the constants \<open>Noop, Read, Write, Delete\<close> numbered by
  \<open>iota\<close>. The type is an integer, so values outside the four constants exist and
  \<open>MarshalJSON\<close> has a branch for them.
\<close>

type_synonym Operation = int

definition Noop :: Operation where
  "Noop = 0"

definition Read :: Operation where
  "Read = 1"

definition Write :: Operation where
  "Write = 2"

definition Delete :: Operation where
  "Delete = 3"

text \<open>
  \<open>Operation.String\<close> indexes a four-element array: an index outside \<open>0..3\<close> is a
  run-time panic.
\<close>

definition Operation_names :: "string list" where
  "Operation_names = [''noop'', ''read'', ''write'', ''delete'']"

definition Operation_String :: "Operation \<Rightarrow> error + string" where
  "Operation_String o' =
     (if 0 \<le> o' \<and> o' < 4 then Inr (Operation_names ! nat o') else Inl Panic)"

text \<open>
  \<open>UnmarshalJSON\<close>: \<open>json.Unmarshal(bytes, &op)\<close> into a string variable is the
  parameter \<open>json_Unmarshal\<close> (the library is not part of the repository); its error
  is returned as it is, and the decoded string is compared with the four tokens in
  the order of the \<open>switch\<close>.
\<close>

definition UnmarshalJSON :: "(string \<Rightarrow> error + string) \<Rightarrow> string \<Rightarrow> error + Operation" where
  "UnmarshalJSON json_Unmarshal bytes =
     (case json_Unmarshal bytes of
        Inl err \<Rightarrow> Inl err
      | Inr op \<Rightarrow>
          if Inr op = Operation_String Noop then Inr Noop
          else if Inr op = Operation_String Read then Inr Read
          else if Inr op = Operation_String Write then Inr Write
          else if Inr op = Operation_String Delete then Inr Delete
          else Inl (InvalidOp op))"

text \<open>
  \<open>MarshalJSON\<close>: the \<open>switch\<close> picks the token, the \<open>default\<close> branch fails with
  the still empty \<open>op\<close>, and the token goes through \<open>json.Marshal\<close> (the parameter
  \<open>json_Marshal\<close>).
\<close>

definition MarshalJSON :: "(string \<Rightarrow> error + string) \<Rightarrow> Operation \<Rightarrow> error + string" where
  "MarshalJSON json_Marshal o' =
     (if o' = Noop \<or> o' = Read \<or> o' = Write \<or> o' = Delete
      then (case Operation_String o' of Inl err \<Rightarrow> Inl err | Inr op \<Rightarrow> json_Marshal op)
      else Inl (InvalidOp []))"

text \<open>
  A codec for the two library calls on strings that need no escaping: the JSON text
  of such a string is the string between double quotes. It instantiates the
  parameters above at concrete inputs.
\<close>

definition json_quote :: "string \<Rightarrow> error + string" where
  "json_quote s = Inr ([CHR 0x22] @ s @ [CHR 0x22])"

definition json_unquote :: "string \<Rightarrow> error + string" where
  "json_unquote bytes =
     (if 2 \<le> length bytes \<and> hd bytes = CHR 0x22 \<and> last bytes = CHR 0x22
         \<and> CHR 0x22 \<notin> set (butlast (tl bytes)) \<and> CHR 0x5C \<notin> set (butlast (tl bytes))
      then Inr (butlast (tl bytes))
      else Inl JsonError)"

section \<open>Credential lookup (plugins/auth/dao\_es6.go)\<close>

text \<open>
  A search hit carries the index it was found in and its source document
  (\<open>*json.RawMessage\<close>, which may be nil). \<open>user.User\<close> and
  \<open>permission.Permission\<close> are declared outside the sources at hand: they are the
  type parameters \<open>'u\<close> and \<open>'p\<close>, and \<open>json.Unmarshal\<close> into them the parameters
  \<open>unmarshal_user\<close> and \<open>unmarshal_permission\<close>.
\<close>

record hit =
  Index :: string
  Source :: "string option"

datatype ('u, 'p) AuthCredential = UserCredential 'u | PermissionCredential 'p

record elasticsearch =
  url :: string
  userIndex :: string
  userType :: string
  permissionIndex :: string
  permissionType :: string

text \<open>
  The \<open>for _, hit := range response.Hits.Hits\<close> loop of \<open>getCredential\<close>, with
  \<open>obj\<close> (nil at first) threaded through. A user hit without a source leaves \<open>obj\<close>
  as it is; a permission hit dereferences the source unchecked.
\<close>

fun getCredential_hits ::
  "elasticsearch \<Rightarrow> (string \<Rightarrow> error + 'u) \<Rightarrow> (string \<Rightarrow> error + 'p) \<Rightarrow> hit list \<Rightarrow>
   ('u, 'p) AuthCredential option \<Rightarrow> error + ('u, 'p) AuthCredential option" where
  "getCredential_hits es unmarshal_user unmarshal_permission [] obj = Inr obj"
| "getCredential_hits es unmarshal_user unmarshal_permission (h # hits) obj =
     (if Index h = userIndex es then
        (case Source h of
           None \<Rightarrow> getCredential_hits es unmarshal_user unmarshal_permission hits obj
         | Some src \<Rightarrow>
             (case unmarshal_user src of
                Inl err \<Rightarrow> Inl err
              | Inr u \<Rightarrow>
                  getCredential_hits es unmarshal_user unmarshal_permission hits
                    (Some (UserCredential u))))
      else if Index h = permissionIndex es then
        (case Source h of
           None \<Rightarrow> Inl Panic
         | Some src \<Rightarrow>
             (case unmarshal_permission src of
                Inl err \<Rightarrow> Inl err
              | Inr p \<Rightarrow>
                  getCredential_hits es unmarshal_user unmarshal_permission hits
                    (Some (PermissionCredential p))))
      else getCredential_hits es unmarshal_user unmarshal_permission hits obj)"

text \<open>
  \<open>getCredential\<close>: \<open>response\<close> is the outcome of the term query on
  \<open>username.keyword\<close> over the user and the permission index (an error, or the
  hits). The result \<open>Inr None\<close> is Go's \<open>(nil, nil)\<close>: no error and no credential.
\<close>

definition getCredential ::
  "elasticsearch \<Rightarrow> (string \<Rightarrow> error + 'u) \<Rightarrow> (string \<Rightarrow> error + 'p) \<Rightarrow>
   error + hit list \<Rightarrow> string \<Rightarrow> error + ('u, 'p) AuthCredential option" where
  "getCredential es unmarshal_user unmarshal_permission response username =
     (case response of
        Inl err \<Rightarrow> Inl err
      | Inr hits \<Rightarrow>
          if length hits > 1 then Inl (MoreThanOneResult username)
          else getCredential_hits es unmarshal_user unmarshal_permission hits None)"

text \<open>The store handle used at concrete inputs: the meta indices of the two plugins.\<close>

definition es_auth :: elasticsearch where
  "es_auth = \<lparr>url = ''http://localhost:9200'', userIndex = ''.users'', userType = ''_doc'',
     permissionIndex = ''.permissions'', permissionType = ''_doc''\<rparr>"

section \<open>Log index rollover (rolloverIndexJob)\<close>

text \<open>
  The calls the job makes on shared state or on the cluster, in the order it makes
  them: the two setters of the \<open>classify\<close> package and the delete request, whose
  argument is the comma-joined list of index names.
\<close>

datatype effect =
    SetIndexAlias string string
  | SetAliasIndex string string
  | DeleteIndex string

record rollover_response =
  OldIndex :: string
  NewIndex :: string
  RolledOver :: bool

text \<open>
  The cluster as the job sees it: the outcome of the rollover request for an alias
  and of \<open>CatIndices\<close> for a pattern (the \<open>Index\<close> column of the rows). The outcome
  of the delete request is only logged.
\<close>

record es7_client =
  IndicesRollover :: "string \<Rightarrow> error + rollover_response"
  CatIndices :: "string \<Rightarrow> error + string list"

text \<open>\<open>strings.Join\<close>.\<close>

fun Join :: "string list \<Rightarrow> string \<Rightarrow> string" where
  "Join [] sep = []"
| "Join [x] sep = x"
| "Join (x # y # ys) sep = x @ sep @ Join (y # ys) sep"

text \<open>
  \<open>rolloverIndexJob\<close>. A failed rollover request is logged and its nil response is
  then dereferenced: the job panics before it lists any index. A failed
  \<open>CatIndices\<close> is logged and leaves no rows. \<open>sort.Strings\<close> is the ascending
  bytewise lexicographic order, which is the order of \<open>char list\<close> here.
\<close>

definition rolloverIndexJob :: "es7_client \<Rightarrow> string \<Rightarrow> error + effect list" where
  "rolloverIndexJob client alias =
     (case IndicesRollover client alias of
        Inl err \<Rightarrow> Inl Panic
      | Inr rolloverService \<Rightarrow>
          let classified =
                (if RolledOver rolloverService
                 then [SetIndexAlias (NewIndex rolloverService) alias,
                       SetAliasIndex alias (NewIndex rolloverService)]
                 else []);
              indices = (case CatIndices client (alias @ ''-*'') of Inl err \<Rightarrow> [] | Inr rows \<Rightarrow> rows)
          in if length indices > 2 then
               let rolloverIndices = sort indices;
                   rolloverIndices = take (length rolloverIndices - 2) rolloverIndices
               in Inr (classified @ [DeleteIndex (Join rolloverIndices '','')])
             else Inr classified)"

section \<open>The middleware chain of the logs routes (list, Wrap)\<close>

text \<open>
  The middleware of \<open>list()\<close>, by name. Each comes from another package
  (\<open>classify\<close>, \<open>auth\<close>, \<open>validate\<close>) or is \<open>classifyCategory\<close>; what a chain
  shows of one is whether it calls the handler it wraps or answers itself.
\<close>

datatype middleware =
    classifyCategory
  | classify_Op
  | classify_Indices
  | auth_BasicAuth
  | validate_Indices
  | validate_Operation
  | validate_Category

definition list_middleware :: "middleware list" where
  "list_middleware =
     [classifyCategory, classify_Op, classify_Indices, auth_BasicAuth,
      validate_Indices, validate_Operation, validate_Category]"

text \<open>
  A run is the sequence of stages entered. A handler extends the run; a middleware
  that lets the request pass enters and calls the wrapped handler, one that
  rejects it enters and answers itself.
\<close>

datatype stage = Stage middleware | BusinessHandler

type_synonym handler = "stage list \<Rightarrow> stage list"

definition apply_middleware :: "(middleware \<Rightarrow> bool) \<Rightarrow> middleware \<Rightarrow> handler \<Rightarrow> handler" where
  "apply_middleware passes m h = (\<lambda>run. if passes m then h (run @ [Stage m]) else run @ [Stage m])"

definition business :: handler where
  "business run = run @ [BusinessHandler]"

text \<open>
  Modelled from the spec: \<open>middleware.Fifo.Adapt\<close> is not among the sources. The
  spec (4.5) has a chain as an ordered sequence of interceptors, each of which
  receives the terminal handler and returns a wrapping handler, so that the first
  of the sequence is the outermost and runs first.
\<close>

definition Adapt :: "handler \<Rightarrow> (handler \<Rightarrow> handler) list \<Rightarrow> handler" where
  "Adapt h ms = foldr (\<lambda>m h'. m h') ms h"

definition Wrap :: "(middleware \<Rightarrow> bool) \<Rightarrow> handler \<Rightarrow> handler" where
  "Wrap passes h = Adapt h (map (apply_middleware passes) list_middleware)"

text \<open>
  The canonical order in the words of the spec: classify (category, operation,
  indices), authenticate, authorize (category, index), validate the operation,
  with the business handler last; a run is in canonical order when the ranks of
  its stages never decrease.
\<close>

fun canonical_rank :: "stage \<Rightarrow> nat" where
  "canonical_rank (Stage classifyCategory) = 0"
| "canonical_rank (Stage classify_Op) = 1"
| "canonical_rank (Stage classify_Indices) = 2"
| "canonical_rank (Stage auth_BasicAuth) = 3"
| "canonical_rank (Stage validate_Category) = 4"
| "canonical_rank (Stage validate_Indices) = 4"
| "canonical_rank (Stage validate_Operation) = 5"
| "canonical_rank BusinessHandler = 7"

definition canonical_order :: "stage list \<Rightarrow> bool" where
  "canonical_order run = sorted (map canonical_rank run)"

definition all_pass :: "middleware \<Rightarrow> bool" where
  "all_pass m = True"

text \<open>The delete requests among the calls of a run, and a cluster with four log indices.\<close>

fun deleteRequests :: "effect list \<Rightarrow> string list" where
  "deleteRequests [] = []"
| "deleteRequests (DeleteIndex names # es) = names # deleteRequests es"
| "deleteRequests (e # es) = deleteRequests es"

definition es7_four :: es7_client where
  "es7_four =
     \<lparr>IndicesRollover = (\<lambda>alias. Inr \<lparr>OldIndex = alias @ ''-000003'',
        NewIndex = alias @ ''-000004'', RolledOver = True\<rparr>),
      CatIndices = (\<lambda>pattern. Inr [''.logs-000004'', ''.logs-000002'', ''.logs-000003'',
        ''.logs-000001''])\<rparr>"

section \<open>The logs recorder (recorder, recordResponse)\<close>

text \<open>
  \<open>category.Category\<close> is declared outside the sources at hand; the recorder
  compares it with \<open>category.Search\<close> and \<open>category.ReactiveSearch\<close>, and
  \<open>classifyCategory\<close> sets \<open>category.Logs\<close> or \<open>category.User\<close>.
\<close>

datatype category = Search | ReactiveSearch | Logs | User | OtherCategory string

text \<open>
  A response writer: the header map, the status code, the body written so far,
  whether the header was written, and the headers as they were at that moment.
  \<open>httptest.NewRecorder\<close> starts with code 200 and nothing written. The same record
  stands for the client's \<open>http.ResponseWriter\<close>. (The library's choice of a
  \<open>Content-Type\<close> at the first write is left out.)
\<close>

record ResponseWriter =
  rw_HeaderMap :: "string \<rightharpoonup> string list"
  rw_Code :: int
  rw_Body :: string
  rw_wroteHeader :: bool
  rw_snapHeader :: "(string \<rightharpoonup> string list) option"

definition NewRecorder :: ResponseWriter where
  "NewRecorder = \<lparr>rw_HeaderMap = Map.empty, rw_Code = 200, rw_Body = [],
     rw_wroteHeader = False, rw_snapHeader = None\<rparr>"

definition WriteHeader :: "int \<Rightarrow> ResponseWriter \<Rightarrow> ResponseWriter" where
  "WriteHeader code w =
     (if rw_wroteHeader w then w
      else w\<lparr>rw_Code := code, rw_wroteHeader := True, rw_snapHeader := Some (rw_HeaderMap w)\<rparr>)"

definition Write_body :: "string \<Rightarrow> ResponseWriter \<Rightarrow> ResponseWriter" where
  "Write_body b w =
     (let w' = (if rw_wroteHeader w then w else WriteHeader 200 w)
      in w'\<lparr>rw_Body := rw_Body w' @ b\<rparr>)"

text \<open>\<open>ResponseRecorder.Result\<close>: the status code, the headers and the body it reports.\<close>

definition Result_StatusCode :: "ResponseWriter \<Rightarrow> int" where
  "Result_StatusCode w = (if rw_Code w = 0 then 200 else rw_Code w)"

definition Result_Header :: "ResponseWriter \<Rightarrow> (string \<rightharpoonup> string list)" where
  "Result_Header w = (case rw_snapHeader w of None \<Rightarrow> rw_HeaderMap w | Some h \<Rightarrow> h)"

definition Result_Body_ReadAll :: "ResponseWriter \<Rightarrow> error + string" where
  "Result_Body_ReadAll w = Inr (rw_Body w)"

text \<open>
  The request as the recorder reads it: method, path and headers; the outcome of
  reading the body to its end; the request line and header lines as
  \<open>httputil.DumpRequest\<close> writes them before the blank line; and what the request
  context holds: the category, the indices, and the JSON that \<open>json.Marshal\<close> gives
  for the ReactiveSearch request body kept there.
\<close>

record http_Request =
  r_Method :: string
  r_URL_Path :: string
  r_Header :: "string \<rightharpoonup> string list"
  r_Body :: "error + string"
  r_Head :: string
  ctx_category :: "category option"
  ctx_indices :: "string list option"
  ctx_request_json :: "error + string"

type_synonym http_HandlerFunc = "ResponseWriter \<Rightarrow> http_Request \<Rightarrow> ResponseWriter"

text \<open>\<open>Header.Get\<close> for a key in canonical form: the first value, or the empty string.\<close>

definition Header_Get :: "(string \<rightharpoonup> string list) \<Rightarrow> string \<Rightarrow> string" where
  "Header_Get h key = (case h key of None \<Rightarrow> [] | Some [] \<Rightarrow> [] | Some (v # vs) \<Rightarrow> v)"

definition CRLFCRLF :: string where
  "CRLFCRLF = [CHR 0x0D, CHR 0x0A, CHR 0x0D, CHR 0x0A]"

text \<open>
  \<open>httputil.DumpRequest(r, true)\<close>: it fails when the body cannot be read, and
  otherwise gives the head, a blank line and the body.
\<close>

definition DumpRequest :: "http_Request \<Rightarrow> error + string" where
  "DumpRequest r =
     (case r_Body r of Inl err \<Rightarrow> Inl err | Inr body \<Rightarrow> Inr (r_Head r @ CRLFCRLF @ body))"

text \<open>
  \<open>strings.Split\<close> for a non-empty separator: the segments between its leftmost
  non-overlapping occurrences. \<open>cur\<close> is the segment being read.
\<close>

fun Split_from :: "string \<Rightarrow> string \<Rightarrow> string \<Rightarrow> string list" where
  "Split_from sep cur [] = [cur]"
| "Split_from sep cur (c # cs) =
     (if sep \<noteq> [] \<and> take (length sep) (c # cs) = sep
      then cur # Split_from sep [] (drop (length sep) (c # cs))
      else Split_from sep (cur @ [c]) cs)"

definition Split :: "string \<Rightarrow> string \<Rightarrow> string list" where
  "Split s sep = Split_from sep [] s"

text \<open>
  Modelled from the spec: \<open>util.Min\<close> is not among the sources; bodies above the
  ceiling of 1,000,000 bytes are truncated to it, so it is the smaller of its two
  arguments.
\<close>

definition util_Min :: "int \<Rightarrow> int \<Rightarrow> int" where
  "util_Min a b = (if a < b then a else b)"

text \<open>The slice \<open>b[:util.Min(len(b), 1000000)]\<close>.\<close>

definition slice_Min :: "string \<Rightarrow> string" where
  "slice_Min b = take (nat (util_Min (int (length b)) 1000000)) b"

text \<open>The log record types of both versions of the plugin.\<close>

record Request =
  req_URI :: string
  req_Method :: string
  req_Headers :: "string \<rightharpoonup> string list"
  req_Body :: string

record 't Response =
  res_Code :: int
  res_Status :: string
  res_Headers :: "string \<rightharpoonup> string list"
  res_Took :: "'t option"
  res_Body :: string

record 't log_record =
  rec_Indices :: "string list"
  rec_Category :: category
  rec_Request :: Request
  rec_Response :: "'t Response"
  rec_Timestamp :: nat

text \<open>
  What the plugin takes from its surroundings: the clock, \<open>http.StatusText\<close>, the
  two ways a \<open>took\<close> value is read from a response body (their number type is the
  parameter \<open>'t\<close>), \<open>json.Marshal\<close> of a record, a write to the rotating log file
  (the number of bytes written, or an error), and \<open>util.WriteBackError\<close>.
\<close>

record 't logs_env =
  time_Now :: nat
  http_StatusText :: "int \<Rightarrow> string"
  search_took :: "string \<Rightarrow> error + 't"
  settings_took :: "string \<Rightarrow> error + 't"
  json_Marshal_record :: "'t log_record \<Rightarrow> error + string"
  lumberjack_Write :: "string \<Rightarrow> error + nat"
  util_WriteBackError :: "ResponseWriter \<Rightarrow> string \<Rightarrow> int \<Rightarrow> ResponseWriter"

text \<open>
  The record that \<open>recordResponse\<close> builds (up to the call of \<open>json.Marshal(rec)\<close>),
  or the error it logs before it returns. For a ReactiveSearch request the body
  recorded is the JSON of the request body kept in the context and the \<open>took\<close>
  value is read from the recorder's buffer; for any other category the body is the
  second segment of the dumped request split at blank lines.
\<close>

definition recordResponse_record ::
  "'t logs_env \<Rightarrow> ResponseWriter \<Rightarrow> http_Request \<Rightarrow> string \<Rightarrow> error + 't log_record" where
  "recordResponse_record env w r reqBody =
     (case ctx_category r of
        None \<Rightarrow> Inl ContextError
      | Some reqCategory \<Rightarrow>
     (case ctx_indices r of
        None \<Rightarrow> Inl ContextError
      | Some reqIndices \<Rightarrow>
     (case Result_Body_ReadAll w of
        Inl err \<Rightarrow> Inl err
      | Inr responseBody \<Rightarrow>
          let code = Result_StatusCode w;
              took = (if reqCategory = Search
                      then (case search_took env responseBody of
                              Inl err \<Rightarrow> None | Inr t \<Rightarrow> Some t)
                      else None)
          in if reqCategory = ReactiveSearch then
               (case ctx_request_json r of
                  Inl err \<Rightarrow> Inl err
                | Inr marshalled \<Rightarrow>
                    Inr \<lparr>rec_Indices = reqIndices, rec_Category = reqCategory,
                         rec_Request = \<lparr>req_URI = r_URL_Path r, req_Method = r_Method r,
                           req_Headers = r_Header r, req_Body = slice_Min marshalled\<rparr>,
                         rec_Response = \<lparr>res_Code = code, res_Status = http_StatusText env code,
                           res_Headers = Result_Header w,
                           res_Took = (case settings_took env (rw_Body w) of
                                         Inl err \<Rightarrow> took | Inr tookValue \<Rightarrow> Some tookValue),
                           res_Body = slice_Min responseBody\<rparr>,
                         rec_Timestamp = time_Now env\<rparr>)
             else
               let requestBody = Split reqBody CRLFCRLF;
                   parsedBody = (if length requestBody > 1 then requestBody ! 1 else [])
               in Inr \<lparr>rec_Indices = reqIndices, rec_Category = reqCategory,
                       rec_Request = \<lparr>req_URI = r_URL_Path r, req_Method = r_Method r,
                         req_Headers = r_Header r, req_Body = slice_Min parsedBody\<rparr>,
                       rec_Response = \<lparr>res_Code = code, res_Status = http_StatusText env code,
                         res_Headers = Result_Header w, res_Took = took,
                         res_Body = slice_Min responseBody\<rparr>,
                       rec_Timestamp = time_Now env\<rparr>)))"

text \<open>
  \<open>recordResponse\<close>: the record is marshalled and written to the log file, followed
  by a newline; every failure is logged and ends the function. It returns nothing:
  its effect is the new content of the log file.
\<close>

definition recordResponse ::
  "'t logs_env \<Rightarrow> ResponseWriter \<Rightarrow> http_Request \<Rightarrow> string \<Rightarrow> string list \<Rightarrow> string list" where
  "recordResponse env w r reqBody lumberjack =
     (case recordResponse_record env w r reqBody of
        Inl err \<Rightarrow> lumberjack
      | Inr rec \<Rightarrow>
     (case json_Marshal_record env rec of
        Inl err \<Rightarrow> lumberjack
      | Inr marshalledLog \<Rightarrow>
     (case lumberjack_Write env marshalledLog of
        Inl err \<Rightarrow> lumberjack
      | Inr n \<Rightarrow>
     (case lumberjack_Write env [CHR 0x0A] of
        Inl err \<Rightarrow> lumberjack @ [marshalledLog]
      | Inr m \<Rightarrow> lumberjack @ [marshalledLog, [CHR 0x0A]]))))"

text \<open>
  The copy of the recorded response to the client's writer: each recorded header
  replaces the writer's entry for its key, then the code and the body are written.
\<close>

definition copy_response :: "ResponseWriter \<Rightarrow> ResponseWriter \<Rightarrow> ResponseWriter" where
  "copy_response respRecorder w =
     Write_body (rw_Body respRecorder)
       (WriteHeader (rw_Code respRecorder)
          (w\<lparr>rw_HeaderMap := rw_HeaderMap w ++ rw_HeaderMap respRecorder\<rparr>))"

text \<open>
  \<open>recorder\<close>: the client's writer after the request, and the arguments of the
  \<open>recordResponse\<close> goroutine when one is started. A request without a category in
  its context, or one that cannot be dumped, is logged and left unanswered: the
  wrapped handler is not called.
\<close>

definition recorder ::
  "http_HandlerFunc \<Rightarrow> ResponseWriter \<Rightarrow> http_Request \<Rightarrow>
   ResponseWriter \<times> (ResponseWriter \<times> http_Request \<times> string) option" where
  "recorder h w r =
     (if Header_Get (r_Header r) ''X-Request-Category'' = ''streams'' then (h w r, None)
      else
        (case ctx_category r of
           None \<Rightarrow> (w, None)
         | Some reqCategory \<Rightarrow>
             (case (if reqCategory \<noteq> ReactiveSearch then DumpRequest r else Inr []) of
                Inl err \<Rightarrow> (w, None)
              | Inr dumpRequest \<Rightarrow>
                  let respRecorder = h NewRecorder r
                  in (copy_response respRecorder w, Some (respRecorder, r, dumpRequest)))))"

text \<open>A request served through \<open>recorder\<close>, the goroutine it starts included.\<close>

definition recorder_run ::
  "'t logs_env \<Rightarrow> http_HandlerFunc \<Rightarrow> ResponseWriter \<Rightarrow> http_Request \<Rightarrow> string list \<Rightarrow>
   ResponseWriter \<times> string list" where
  "recorder_run env h w r lumberjack =
     (case recorder h w r of
        (w', None) \<Rightarrow> (w', lumberjack)
      | (w', Some (respRecorder, r', dumpRequest)) \<Rightarrow>
          (w', recordResponse env respRecorder r' dumpRequest lumberjack))"

subsection \<open>The earlier version of the plugin (module appbaseio/arc)\<close>

text \<open>
  In this version \<open>recorder\<close> reads the body itself, answers an unreadable body with
  an error response, and builds the \<open>Request\<close> part of the record before the handler
  runs; \<open>recordResponse\<close> builds the record and, its last lines being commented
  out, writes it nowhere.
\<close>

definition recordResponse_arc_record ::
  "'t logs_env \<Rightarrow> Request \<Rightarrow> ResponseWriter \<Rightarrow> http_Request \<Rightarrow> error + 't log_record" where
  "recordResponse_arc_record env request w req =
     (case ctx_category req of
        None \<Rightarrow> Inl ContextError
      | Some reqCategory \<Rightarrow>
     (case ctx_indices req of
        None \<Rightarrow> Inl ContextError
      | Some reqIndices \<Rightarrow>
     (case Result_Body_ReadAll w of
        Inl err \<Rightarrow> Inl err
      | Inr responseBody \<Rightarrow>
          let code = Result_StatusCode w;
              took = (if reqCategory = Search
                      then (case search_took env responseBody of
                              Inl err \<Rightarrow> None | Inr t \<Rightarrow> Some t)
                      else None);
              took = (if reqCategory = ReactiveSearch
                      then (case settings_took env responseBody of
                              Inl err \<Rightarrow> took | Inr t \<Rightarrow> Some t)
                      else took)
          in Inr \<lparr>rec_Indices = reqIndices, rec_Category = reqCategory,
                  rec_Request = request,
                  rec_Response = \<lparr>res_Code = code, res_Status = http_StatusText env code,
                    res_Headers = Result_Header w, res_Took = took,
                    res_Body = slice_Min responseBody\<rparr>,
                  rec_Timestamp = time_Now env\<rparr>)))"

definition recordResponse_arc ::
  "'t logs_env \<Rightarrow> Request \<Rightarrow> ResponseWriter \<Rightarrow> http_Request \<Rightarrow> string list \<Rightarrow> string list" where
  "recordResponse_arc env request w req lumberjack =
     (case recordResponse_arc_record env request w req of
        Inl err \<Rightarrow> lumberjack
      | Inr rec \<Rightarrow> lumberjack)"

definition recorder_arc ::
  "'t logs_env \<Rightarrow> http_HandlerFunc \<Rightarrow> ResponseWriter \<Rightarrow> http_Request \<Rightarrow>
   ResponseWriter \<times> (Request \<times> ResponseWriter \<times> http_Request) option" where
  "recorder_arc env h w r =
     (if Header_Get (r_Header r) ''X-Request-Category'' = ''streams'' then (h w r, None)
      else
        (case r_Body r of
           Inl err \<Rightarrow> (util_WriteBackError env w ''Can't read request body'' 500, None)
         | Inr reqBody \<Rightarrow>
             let request = \<lparr>req_URI = r_URL_Path r, req_Method = r_Method r,
                   req_Headers = r_Header r, req_Body = slice_Min reqBody\<rparr>;
                 respRecorder = h NewRecorder r
             in (copy_response respRecorder w, Some (request, respRecorder, r))))"

text \<open>\<open>strings.Contains\<close> for a non-empty substring.\<close>

fun Contains :: "string \<Rightarrow> string \<Rightarrow> bool" where
  "Contains [] substr = (substr = [])"
| "Contains (c # cs) substr = (take (length substr) (c # cs) = substr \<or> Contains cs substr)"

text \<open>
  Concrete surroundings, handler and requests: an environment in which no \<open>took\<close>
  value is found, a record is marshalled to its request body and every write
  succeeds; a handler that answers 404 with the body \<open>nf\<close>; a search request, the
  same request with an unreadable body, a request of the streams category, and a
  ReactiveSearch request whose context holds the body in compact form.
\<close>

definition env_plain :: "nat logs_env" where
  "env_plain =
     \<lparr>time_Now = 0, http_StatusText = (\<lambda>code. if code = 404 then ''Not Found'' else ''OK''),
      search_took = (\<lambda>body. Inl JsonError), settings_took = (\<lambda>body. Inl JsonError),
      json_Marshal_record = (\<lambda>rec. Inr (req_Body (rec_Request rec))),
      lumberjack_Write = (\<lambda>bytes. Inr (length bytes)),
      util_WriteBackError = (\<lambda>w msg code. Write_body msg (WriteHeader code w))\<rparr>"

definition handler_404 :: http_HandlerFunc where
  "handler_404 w r = Write_body ''nf'' (WriteHeader 404 w)"

definition request_search :: http_Request where
  "request_search =
     \<lparr>r_Method = ''POST'', r_URL_Path = ''/books/_search'', r_Header = Map.empty,
      r_Body = Inr ''{}'', r_Head = ''POST /books/_search HTTP/1.1'',
      ctx_category = Some Search, ctx_indices = Some [''books''],
      ctx_request_json = Inr ''null''\<rparr>"

definition request_unreadable :: http_Request where
  "request_unreadable = request_search\<lparr>r_Body := Inl IoError\<rparr>"

definition request_streams :: http_Request where
  "request_streams =
     request_search\<lparr>r_Header := [''X-Request-Category'' \<mapsto> [''streams'']]\<rparr>"

definition request_rs :: http_Request where
  "request_rs =
     request_search\<lparr>r_URL_Path := ''/books/_reactivesearch'', r_Body := Inr ''{ }'',
       ctx_category := Some ReactiveSearch, ctx_request_json := Inr ''{}''\<rparr>"

definition request_blank_line :: http_Request where
  "request_blank_line =
     request_search\<lparr>r_Body := Inr [CHR ''a'', CHR 0x0D, CHR 0x0A, CHR 0x0D, CHR 0x0A, CHR ''b'']\<rparr>"

section \<open>The users store (newClient, hashPasswords, postMasterUser)\<close>

text \<open>
  \<open>user.User\<close> is declared outside the sources at hand. The store reads and writes
  its username, password and hash-algorithm tag, and \<open>user.NewAdmin\<close> sets the
  admin flag; the record is extensible, so that a user carries its other fields
  along unchanged.
\<close>

record user =
  Username :: string
  Password :: string
  PasswordHashType :: string
  IsAdmin :: bool

text \<open>The users index: the documents by their id.\<close>

type_synonym 'a users_index = "string \<rightharpoonup> 'a user_scheme"

text \<open>
  What the store takes from its surroundings: the environment variables, bcrypt
  (salted, so its result is given rather than computed), \<open>user.NewAdmin\<close>, and the
  outcomes of the calls on the cluster: the connection, whether the index exists,
  the number of nodes, the creation of the index, the search for all users (the
  sources of the hits) with their decoding, and whether an update or an index
  request for a document id fails.
\<close>

record 'a users_env =
  os_Getenv :: "string \<Rightarrow> string"
  bcrypt_GenerateFromPassword :: "string \<Rightarrow> error + string"
  user_NewAdmin :: "string \<Rightarrow> string \<Rightarrow> error + 'a user_scheme"
  elastic_NewClient :: "error + unit"
  es_IndexExists :: "error + bool"
  es_NodesInfo :: "error + nat"
  es_CreateIndex :: "error + unit"
  es_Search :: "error + string list"
  json_Unmarshal_users :: "string list \<Rightarrow> error + 'a user_scheme list"
  es_Update_error :: "string \<Rightarrow> error option"
  es_Index_error :: "string \<Rightarrow> error option"

text \<open>
  \<open>getRawUsers\<close> ignores the error of the search and then reads the hits of the
  response, which is nil after an error.
\<close>

definition getRawUsers :: "'a users_env \<Rightarrow> error + string list" where
  "getRawUsers env = (case es_Search env of Inl err \<Rightarrow> Inl Panic | Inr sources \<Rightarrow> Inr sources)"

text \<open>
  A partial document applied to a user: the two keys that \<open>hashPasswords\<close> sends,
  by their JSON names.
\<close>

fun apply_patch :: "'a user_scheme \<Rightarrow> (string \<times> string) list \<Rightarrow> 'a user_scheme" where
  "apply_patch u [] = u"
| "apply_patch u ((k, v) # patch) =
     apply_patch
       (if k = ''password'' then u\<lparr>Password := v\<rparr>
        else if k = ''password_hash_type'' then u\<lparr>PasswordHashType := v\<rparr>
        else u) patch"

text \<open>
  \<open>patchUser\<close>: an update request for the document with the username as id. It
  fails when the request fails or the document does not exist.
\<close>

definition patchUser ::
  "'a users_env \<Rightarrow> 'a users_index \<Rightarrow> string \<Rightarrow> (string \<times> string) list \<Rightarrow> error + 'a users_index" where
  "patchUser env index username patch =
     (case es_Update_error env username of
        Some err \<Rightarrow> Inl err
      | None \<Rightarrow>
          (case index username of
             None \<Rightarrow> Inl EsError
           | Some u \<Rightarrow> Inr (index(username \<mapsto> apply_patch u patch))))"


text \<open>
  The loop of \<open>hashPasswords\<close> over the decoded users: a user with a hash-algorithm
  tag is skipped; for any other the password is hashed (an error of bcrypt is
  logged and leaves the hash empty) and the user is patched; the first failing
  patch ends the function with its error.
\<close>

fun hashPasswords_users ::
  "'a users_env \<Rightarrow> 'a user_scheme list \<Rightarrow> 'a users_index \<Rightarrow> (error + unit) \<times> 'a users_index" where
  "hashPasswords_users env [] index = (Inr (), index)"
| "hashPasswords_users env (user # users) index =
     (if PasswordHashType user \<noteq> [] then hashPasswords_users env users index
      else
        let hashedPassword =
              (case bcrypt_GenerateFromPassword env (Password user) of
                 Inl err \<Rightarrow> [] | Inr hash \<Rightarrow> hash)
        in (case patchUser env index (Username user)
                   [(''password'', hashedPassword), (''password_hash_type'', ''bcrypt'')] of
              Inl err \<Rightarrow> (Inl err, index)
            | Inr index' \<Rightarrow> hashPasswords_users env users index'))"

definition hashPasswords :: "'a users_env \<Rightarrow> 'a users_index \<Rightarrow> (error + unit) \<times> 'a users_index" where
  "hashPasswords env index =
     (case getRawUsers env of
        Inl err \<Rightarrow> (Inl err, index)
      | Inr rawUsers \<Rightarrow>
          (case json_Unmarshal_users env rawUsers of
             Inl err \<Rightarrow> (Inl err, index)
           | Inr users \<Rightarrow> hashPasswords_users env users index))"




text \<open>
  Concrete surroundings: no credentials in the environment, an index that exists
  and holds a user with a plain password and a user with a hashed one, and calls
  that all succeed.
\<close>

definition user_alice :: user where
  "user_alice = \<lparr>Username = ''alice'', Password = ''secret'', PasswordHashType = [], IsAdmin = False\<rparr>"

definition user_bob :: user where
  "user_bob = \<lparr>Username = ''bob'', Password = ''$2a$xyz'', PasswordHashType = ''bcrypt'',
     IsAdmin = False\<rparr>"

definition users_env_plain :: "unit users_env" where
  "users_env_plain =
     \<lparr>os_Getenv = (\<lambda>name. []),
      bcrypt_GenerateFromPassword = (\<lambda>password. Inr (''$2a$'' @ rev password)),
      user_NewAdmin = (\<lambda>username password.
        Inr \<lparr>Username = username, Password = password, PasswordHashType = [], IsAdmin = True\<rparr>),
      elastic_NewClient = Inr (), es_IndexExists = Inr True, es_NodesInfo = Inr 1,
      es_CreateIndex = Inr (), es_Search = Inr [''alice'', ''bob''],
      json_Unmarshal_users = (\<lambda>sources. Inr [user_alice, user_bob]),
      es_Update_error = (\<lambda>id. None), es_Index_error = (\<lambda>id. None)\<rparr>"

definition users_index_two :: "unit users_index" where
  "users_index_two = [''alice'' \<mapsto> user_alice, ''bob'' \<mapsto> user_bob]"

text \<open>A cluster on which the rollover request fails while three log indices exist.\<close>

definition es7_rollover_failed :: es7_client where
  "es7_rollover_failed =
     \<lparr>IndicesRollover = (\<lambda>alias. Inl EsError),
      CatIndices = (\<lambda>pattern. Inr [''.logs-000001'', ''.logs-000002'', ''.logs-000003''])\<rparr>"

text \<open>
  The same surroundings of the users store with every update request failing, with
  a search that returns the hashed user only, and with every index request
  failing.
\<close>

definition users_env_update_fails :: "unit users_env" where
  "users_env_update_fails = users_env_plain\<lparr>es_Update_error := (\<lambda>k. Some EsError)\<rparr>"

definition users_env_one_hit :: "unit users_env" where
  "users_env_one_hit =
     users_env_plain\<lparr>es_Search := Inr [''bob''], json_Unmarshal_users := (\<lambda>sources. Inr [user_bob])\<rparr>"


section \<open>Theorems\<close>

text \<open>
  C1: whenever the search returns more than one hit for the username (a user and a
  permission record, or duplicates), \<open>getCredential\<close> returns the "more than one
  result" error and no credential, whatever the hits are.
\<close>

theorem getCredential_ambiguous:
  "response = Inr hits \<Longrightarrow> length hits > 1 \<Longrightarrow>
   getCredential es unmarshal_user unmarshal_permission response username =
     Inl (MoreThanOneResult username)"
  by (simp add: getCredential_def)

theorem getCredential_ambiguous_witness:
  "getCredential es_auth Inr Inr
     (Inr [\<lparr>Index = ''.users'', Source = Some ''u''\<rparr>,
           \<lparr>Index = ''.permissions'', Source = Some ''p''\<rparr>]) ''alice'' =
   (Inl (MoreThanOneResult ''alice'') :: error + (string, string) AuthCredential option)"
  using getCredential_ambiguous
    [of "Inr [\<lparr>Index = ''.users'', Source = Some ''u''\<rparr>,
              \<lparr>Index = ''.permissions'', Source = Some ''p''\<rparr>]"
        "[\<lparr>Index = ''.users'', Source = Some ''u''\<rparr>,
          \<lparr>Index = ''.permissions'', Source = Some ''p''\<rparr>]"
        es_auth Inr Inr "''alice''"]
  by simp

text \<open>
  C2 (as the code has it): when the search returns no hit, \<open>getCredential\<close> returns
  no error and a nil credential; the absence of a record is not an error of the
  lookup.
\<close>

theorem getCredential_no_hit:
  "response = Inr [] \<Longrightarrow>
   getCredential es unmarshal_user unmarshal_permission response username = Inr None"
  by (simp add: getCredential_def)

theorem getCredential_no_hit_witness:
  "getCredential es_auth Inr Inr (Inr []) ''carol'' =
   (Inr None :: error + (string, string) AuthCredential option)"
  using getCredential_no_hit [of "Inr []" es_auth Inr Inr "''carol''"]
  by simp

text \<open>
  C2 (as the claim states it) fails: for a username with no matching record the
  lookup succeeds and carries no credential.
\<close>

theorem getCredential_not_found_counterexample:
  "getCredential es_auth Inr Inr (Inr []) ''nobody'' =
   (Inr None :: error + (string, string) AuthCredential option)"
  by (simp add: getCredential_def)

text \<open>
  C3: for each of \<open>Noop, Read, Write, Delete\<close>, \<open>MarshalJSON\<close> is the JSON
  encoding of the lowercase token and \<open>UnmarshalJSON\<close> of that encoding is the
  value again (given that the JSON library decodes what it encoded for the four
  tokens); and every input that decodes to a string other than the four tokens
  makes \<open>UnmarshalJSON\<close> fail with "invalid op", never yield \<open>Noop\<close>.
\<close>

theorem Operation_json_roundtrip:
  assumes "\<forall>s \<in> set Operation_names. \<exists>b. json_Marshal s = Inr b \<and> json_Unmarshal b = Inr s"
  shows "(MarshalJSON json_Marshal Noop = json_Marshal ''noop''
          \<and> MarshalJSON json_Marshal Read = json_Marshal ''read''
          \<and> MarshalJSON json_Marshal Write = json_Marshal ''write''
          \<and> MarshalJSON json_Marshal Delete = json_Marshal ''delete'')
       \<and> (\<forall>o' \<in> {Noop, Read, Write, Delete}.
             \<exists>b. MarshalJSON json_Marshal o' = Inr b \<and> UnmarshalJSON json_Unmarshal b = Inr o')
       \<and> (\<forall>bytes op. json_Unmarshal bytes = Inr op \<and> op \<notin> set Operation_names \<longrightarrow>
             UnmarshalJSON json_Unmarshal bytes = Inl (InvalidOp op))"
proof (intro conjI)
  show "MarshalJSON json_Marshal Noop = json_Marshal ''noop''"
    by (simp add: MarshalJSON_def Operation_String_def Operation_names_def Noop_def)
  show "MarshalJSON json_Marshal Read = json_Marshal ''read''"
    by (simp add: MarshalJSON_def Operation_String_def Operation_names_def Read_def)
  show "MarshalJSON json_Marshal Write = json_Marshal ''write''"
    by (simp add: MarshalJSON_def Operation_String_def Operation_names_def Write_def)
  show "MarshalJSON json_Marshal Delete = json_Marshal ''delete''"
    by (simp add: MarshalJSON_def Operation_String_def Operation_names_def Delete_def)
  show "\<forall>o' \<in> {Noop, Read, Write, Delete}.
          \<exists>b. MarshalJSON json_Marshal o' = Inr b \<and> UnmarshalJSON json_Unmarshal b = Inr o'"
  proof
    fix o' :: Operation
    assume "o' \<in> {Noop, Read, Write, Delete}"
    then consider "o' = Noop" | "o' = Read" | "o' = Write" | "o' = Delete"
      by auto
    then show "\<exists>b. MarshalJSON json_Marshal o' = Inr b \<and> UnmarshalJSON json_Unmarshal b = Inr o'"
    proof cases
      case 1
      from assms obtain b where "json_Marshal ''noop'' = Inr b" "json_Unmarshal b = Inr ''noop''"
        by (auto simp: Operation_names_def)
      with 1 show ?thesis
        by (simp add: MarshalJSON_def UnmarshalJSON_def Operation_String_def
            Operation_names_def Noop_def)
    next
      case 2
      from assms obtain b where "json_Marshal ''read'' = Inr b" "json_Unmarshal b = Inr ''read''"
        by (auto simp: Operation_names_def)
      with 2 show ?thesis
        by (simp add: MarshalJSON_def UnmarshalJSON_def Operation_String_def
            Operation_names_def Noop_def Read_def)
    next
      case 3
      from assms obtain b where "json_Marshal ''write'' = Inr b" "json_Unmarshal b = Inr ''write''"
        by (auto simp: Operation_names_def)
      with 3 show ?thesis
        by (simp add: MarshalJSON_def UnmarshalJSON_def Operation_String_def
            Operation_names_def Noop_def Read_def Write_def)
    next
      case 4
      from assms obtain b where "json_Marshal ''delete'' = Inr b" "json_Unmarshal b = Inr ''delete''"
        by (auto simp: Operation_names_def)
      with 4 show ?thesis
        by (simp add: MarshalJSON_def UnmarshalJSON_def Operation_String_def
            Operation_names_def Noop_def Read_def Write_def Delete_def)
    qed
  qed
  show "\<forall>bytes op. json_Unmarshal bytes = Inr op \<and> op \<notin> set Operation_names \<longrightarrow>
          UnmarshalJSON json_Unmarshal bytes = Inl (InvalidOp op)"
    by (simp add: UnmarshalJSON_def Operation_String_def Operation_names_def
        Noop_def Read_def Write_def Delete_def)
qed

theorem Operation_json_roundtrip_witness:
  "MarshalJSON json_quote Delete = Inr (CHR 0x22 # ''delete'' @ [CHR 0x22])
   \<and> UnmarshalJSON json_unquote (CHR 0x22 # ''delete'' @ [CHR 0x22]) = Inr Delete
   \<and> UnmarshalJSON json_unquote (CHR 0x22 # ''admin'' @ [CHR 0x22]) = Inl (InvalidOp ''admin'')"
proof -
  have h: "\<forall>s \<in> set Operation_names. \<exists>b. json_quote s = Inr b \<and> json_unquote b = Inr s"
    by (simp add: Operation_names_def json_quote_def json_unquote_def)
  have u: "json_unquote (CHR 0x22 # ''admin'' @ [CHR 0x22]) = Inr ''admin''"
    by (simp add: json_unquote_def)
  have n: "''admin'' \<notin> set Operation_names"
    by (simp add: Operation_names_def)
  note t = Operation_json_roundtrip [OF h]
  from t have m: "MarshalJSON json_quote Delete = json_quote ''delete''"
    by blast
  from t have d: "\<exists>b. MarshalJSON json_quote Delete = Inr b \<and> UnmarshalJSON json_unquote b = Inr Delete"
    by blast
  from t u n have e: "UnmarshalJSON json_unquote (CHR 0x22 # ''admin'' @ [CHR 0x22]) = Inl (InvalidOp ''admin'')"
    by blast
  from m d e show ?thesis
    by (auto simp: json_quote_def)
qed

lemma Adapt_run:
  "Adapt h (map (apply_middleware passes) ms) run =
     (if list_all passes ms then h (run @ map Stage ms)
      else run @ map Stage (takeWhile passes ms) @ [Stage (hd (dropWhile passes ms))])"
  by (induction ms arbitrary: run) (simp_all add: Adapt_def apply_middleware_def)

text \<open>
  C4 (as the code has it): the chain of the logs routes enters its stages in the
  order of \<open>list()\<close>: classification of category, operation and indices, basic
  authentication, validation of the indices, of the operation and then of the
  category, and the business handler last. A stage that rejects the request is the
  last one entered. The list has no ACL check and no rate limiter.
\<close>

theorem Wrap_order:
  "Wrap passes business [] =
     (if list_all passes list_middleware
      then [Stage classifyCategory, Stage classify_Op, Stage classify_Indices,
            Stage auth_BasicAuth, Stage validate_Indices, Stage validate_Operation,
            Stage validate_Category, BusinessHandler]
      else map Stage (takeWhile passes list_middleware)
           @ [Stage (hd (dropWhile passes list_middleware))])"
  unfolding Wrap_def Adapt_run
  by (simp add: business_def list_middleware_def)

theorem Wrap_order_witness:
  "Wrap all_pass business [] =
     [Stage classifyCategory, Stage classify_Op, Stage classify_Indices,
      Stage auth_BasicAuth, Stage validate_Indices, Stage validate_Operation,
      Stage validate_Category, BusinessHandler]"
  using Wrap_order [of all_pass]
  by (simp add: all_pass_def list_middleware_def)

text \<open>
  C4 (as the claim states it) fails: on a request that every stage lets pass, the
  category is validated after the operation, so the run is not in the canonical
  order that puts authorization before operation validation.
\<close>

theorem Wrap_canonical_order_counterexample:
  "\<not> canonical_order (Wrap all_pass business [])"
  by (simp add: canonical_order_def Wrap_def Adapt_def apply_middleware_def business_def
      list_middleware_def all_pass_def)

lemma deleteRequests_append:
  "deleteRequests (xs @ ys) = deleteRequests xs @ deleteRequests ys"
  by (induction xs rule: deleteRequests.induct) simp_all

text \<open>
  A run of the rollover job whose rollover request returned a response, with
  \<open>names\<close> the indices listed for \<open>alias-*\<close> (none when the listing fails): if
  more than two are listed, the job issues one delete request, for the sorted list
  without its last two names, and those two are the greatest; otherwise it issues
  no delete request.
\<close>

lemma rolloverIndexJob_keeps_last_two:
  assumes "IndicesRollover client alias = Inr rolloverService"
    and "names = (case CatIndices client (alias @ ''-*'') of Inl err \<Rightarrow> [] | Inr rows \<Rightarrow> rows)"
    and "deleted = take (length names - 2) (sort names)"
    and "retained = drop (length names - 2) (sort names)"
  shows "(\<exists>effects. rolloverIndexJob client alias = Inr effects
            \<and> deleteRequests effects = (if length names > 2 then [Join deleted '',''] else []))
       \<and> mset deleted + mset retained = mset names
       \<and> (length names > 2 \<longrightarrow> length retained = 2)
       \<and> (\<forall>d \<in> set deleted. \<forall>r \<in> set retained. d \<le> r)"
proof (intro conjI)
  show "\<exists>effects. rolloverIndexJob client alias = Inr effects
            \<and> deleteRequests effects = (if length names > 2 then [Join deleted '',''] else [])"
    using assms by (simp add: rolloverIndexJob_def Let_def deleteRequests_append)
  show "mset deleted + mset retained = mset names"
    unfolding assms(3,4) by (metis append_take_drop_id mset_append mset_sort)
  show "length names > 2 \<longrightarrow> length retained = 2"
    unfolding assms(4) by auto
  have "sorted (take (length names - 2) (sort names) @ drop (length names - 2) (sort names))"
    by (simp only: append_take_drop_id sorted_sort)
  then show "\<forall>d \<in> set deleted. \<forall>r \<in> set retained. d \<le> r"
    unfolding assms(3,4) by (simp only: sorted_append) blast
qed

lemma rolloverIndexJob_keeps_last_two_witness:
  "rolloverIndexJob es7_four ''.logs'' =
     Inr [SetIndexAlias ''.logs-000004'' ''.logs'', SetAliasIndex ''.logs'' ''.logs-000004'',
          DeleteIndex ''.logs-000001,.logs-000002'']
   \<and> deleteRequests [SetIndexAlias ''.logs-000004'' ''.logs'', SetAliasIndex ''.logs'' ''.logs-000004'',
          DeleteIndex ''.logs-000001,.logs-000002''] = [Join [''.logs-000001'', ''.logs-000002''] '','']"
proof -
  have r: "IndicesRollover es7_four ''.logs'' =
      Inr \<lparr>OldIndex = ''.logs-000003'', NewIndex = ''.logs-000004'', RolledOver = True\<rparr>"
    by (simp add: es7_four_def)
  have n: "[''.logs-000004'', ''.logs-000002'', ''.logs-000003'', ''.logs-000001''] =
      (case CatIndices es7_four (''.logs'' @ ''-*'') of Inl err \<Rightarrow> [] | Inr rows \<Rightarrow> rows)"
    by (simp add: es7_four_def)
  have s: "sort [''.logs-000004'', ''.logs-000002'', ''.logs-000003'', ''.logs-000001''] =
      [''.logs-000001'', ''.logs-000002'', ''.logs-000003'', ''.logs-000004'']"
    by simp
  have j: "rolloverIndexJob es7_four ''.logs'' =
     Inr [SetIndexAlias ''.logs-000004'' ''.logs'', SetAliasIndex ''.logs'' ''.logs-000004'',
          DeleteIndex ''.logs-000001,.logs-000002'']"
    by (simp add: rolloverIndexJob_def es7_four_def Let_def)
  from rolloverIndexJob_keeps_last_two [OF r n refl refl] j show ?thesis
    by (simp add: s)
qed

text \<open>
  C10 does not hold on a run whose rollover request fails: the job logs the error
  and then reads the fields of the response, which is nil, so it panics before it
  lists the indices. Three indices match the pattern and none is deleted.
\<close>

theorem rolloverIndexJob_failed_rollover:
  "rolloverIndexJob es7_rollover_failed ''.logs'' = Inl Panic
   \<and> CatIndices es7_rollover_failed (''.logs'' @ ''-*'') =
       Inr [''.logs-000001'', ''.logs-000002'', ''.logs-000003'']"
  by (simp add: rolloverIndexJob_def es7_rollover_failed_def)

lemma slice_Min_take: "slice_Min b = take 1000000 b"
  by (simp add: slice_Min_def util_Min_def)

lemma Split_from_no_sep:
  "sep \<noteq> [] \<Longrightarrow> \<not> Contains b sep \<Longrightarrow> Split_from sep cur b = [cur @ b]"
  by (induction b arbitrary: cur) auto

lemma Split_from_first_sep:
  "sep \<noteq> [] \<Longrightarrow> \<not> Contains (h @ butlast sep) sep \<Longrightarrow>
   Split_from sep cur (h @ sep @ b) = (cur @ h) # Split_from sep [] b"
proof (induction h arbitrary: cur)
  case Nil
  then obtain c cs where s: "sep = c # cs" by (cases sep) auto
  have "Split_from sep cur (sep @ b) = cur # Split_from sep [] (drop (length sep) (sep @ b))"
    unfolding s by simp
  then show ?case by simp
next
  case (Cons x h)
  have n: "take (length sep) ((x # h) @ butlast sep) \<noteq> sep" and c: "\<not> Contains (h @ butlast sep) sep"
    using Cons.prems(2) by auto
  have e: "(x # h) @ sep @ b = ((x # h) @ butlast sep) @ [last sep] @ b"
    using Cons.prems(1) by simp
  have l: "length sep \<le> length ((x # h) @ butlast sep)"
    by simp
  have "take (length sep) ((x # h) @ sep @ b) = take (length sep) ((x # h) @ butlast sep)"
    unfolding e using l by (simp del: append_Cons append_assoc)
  with n have "take (length sep) (x # h @ sep @ b) \<noteq> sep" by simp
  then have "Split_from sep cur ((x # h) @ sep @ b) = Split_from sep (cur @ [x]) (h @ sep @ b)"
    by simp
  also have "\<dots> = ((cur @ [x]) @ h) # Split_from sep [] b"
    using Cons.IH [OF Cons.prems(1) c] .
  finally show ?case by simp
qed

lemma Split_head_body:
  assumes "\<not> Contains (h @ butlast CRLFCRLF) CRLFCRLF" and "\<not> Contains b CRLFCRLF"
  shows "Split (h @ CRLFCRLF @ b) CRLFCRLF = [h, b]"
proof -
  have s: "CRLFCRLF \<noteq> []" by (simp add: CRLFCRLF_def)
  show ?thesis
    unfolding Split_def
    by (simp add: Split_from_first_sep [OF s assms(1)] Split_from_no_sep [OF s assms(2)])
qed

lemma recorder_guards_pass:
  assumes "Header_Get (r_Header r) ''X-Request-Category'' \<noteq> ''streams''"
    and "ctx_category r = Some reqCategory"
    and "reqCategory = ReactiveSearch \<or> r_Body r = Inr body"
  shows "recorder h w r =
     (copy_response (h NewRecorder r) w,
      Some (h NewRecorder r, r,
        if reqCategory = ReactiveSearch then [] else r_Head r @ CRLFCRLF @ body))"
  using assms by (auto simp: recorder_def DumpRequest_def Let_def)

lemma copy_response_fresh:
  assumes "\<not> rw_wroteHeader w"
  shows "rw_Code (copy_response rr w) = rw_Code rr"
    and "rw_Body (copy_response rr w) = rw_Body w @ rw_Body rr"
    and "rw_HeaderMap (copy_response rr w) = rw_HeaderMap w ++ rw_HeaderMap rr"
    and "rw_snapHeader (copy_response rr w) = Some (rw_HeaderMap w ++ rw_HeaderMap rr)"
  using assms by (simp_all add: copy_response_def Write_body_def WriteHeader_def Let_def)

text \<open>
  C5 (as the code has it): for a request that is not of the streams category, has
  a category in its context and, unless that category is ReactiveSearch, a
  readable body, the client's writer ends as the copy of what the wrapped handler
  wrote to the recorder: on a writer not yet written to, the handler's status
  code, its body, and its headers over the writer's own. The log's surroundings
  (marshalling, the write to the log file) have no part in it: the writer is the
  same under any other surroundings and log file.
\<close>

theorem recorder_run_client_response:
  assumes "Header_Get (r_Header r) ''X-Request-Category'' \<noteq> ''streams''"
    and "ctx_category r = Some reqCategory"
    and "reqCategory = ReactiveSearch \<or> r_Body r = Inr body"
    and "\<not> rw_wroteHeader w"
    and "respRecorder = h NewRecorder r"
  shows "fst (recorder_run env h w r lumberjack) = copy_response respRecorder w
       \<and> rw_Code (fst (recorder_run env h w r lumberjack)) = rw_Code respRecorder
       \<and> rw_Body (fst (recorder_run env h w r lumberjack)) = rw_Body w @ rw_Body respRecorder
       \<and> rw_HeaderMap (fst (recorder_run env h w r lumberjack)) =
           rw_HeaderMap w ++ rw_HeaderMap respRecorder
       \<and> fst (recorder_run env' h w r lumberjack') = fst (recorder_run env h w r lumberjack)"
proof -
  have "fst (recorder_run env h w r lumberjack) = copy_response respRecorder w"
    and "fst (recorder_run env' h w r lumberjack') = copy_response respRecorder w"
    unfolding recorder_run_def recorder_guards_pass [OF assms(1-3)] assms(5) by simp_all
  then show ?thesis
    by (simp add: copy_response_fresh [OF assms(4)])
qed

theorem recorder_run_client_response_witness:
  "rw_Code (fst (recorder_run (env_plain\<lparr>lumberjack_Write := (\<lambda>bytes. Inl IoError)\<rparr>)
       handler_404 NewRecorder request_search [])) = 404
   \<and> rw_Body (fst (recorder_run (env_plain\<lparr>lumberjack_Write := (\<lambda>bytes. Inl IoError)\<rparr>)
       handler_404 NewRecorder request_search [])) = ''nf''
   \<and> snd (recorder_run (env_plain\<lparr>lumberjack_Write := (\<lambda>bytes. Inl IoError)\<rparr>)
       handler_404 NewRecorder request_search []) = []"
proof -
  have a: "Header_Get (r_Header request_search) ''X-Request-Category'' \<noteq> ''streams''"
    by (simp add: request_search_def Header_Get_def)
  have b: "ctx_category request_search = Some Search"
    by (simp add: request_search_def)
  have c: "Search = ReactiveSearch \<or> r_Body request_search = Inr ''{}''"
    by (simp add: request_search_def)
  have d: "\<not> rw_wroteHeader NewRecorder"
    by (simp add: NewRecorder_def)
  have s: "snd (recorder_run (env_plain\<lparr>lumberjack_Write := (\<lambda>bytes. Inl IoError)\<rparr>)
       handler_404 NewRecorder request_search []) = []"
    unfolding recorder_run_def recorder_guards_pass [OF a b c]
    by (simp add: recordResponse_def recordResponse_record_def env_plain_def request_search_def
        Result_Body_ReadAll_def Let_def)
  have e: "rw_Body NewRecorder = []"
    by (simp add: NewRecorder_def)
  have h: "rw_Code (handler_404 NewRecorder request_search) = 404
      \<and> rw_Body (handler_404 NewRecorder request_search) = ''nf''"
    by (simp add: handler_404_def NewRecorder_def Write_body_def WriteHeader_def Let_def)
  note t = recorder_run_client_response
      [where env = "env_plain\<lparr>lumberjack_Write := (\<lambda>bytes. Inl IoError)\<rparr>"
         and lumberjack = "[]" and h = handler_404 and env' = env_plain
         and lumberjack' = "[]", OF a b c d refl]
  have x: "rw_Code (fst (recorder_run (env_plain\<lparr>lumberjack_Write := (\<lambda>bytes. Inl IoError)\<rparr>)
       handler_404 NewRecorder request_search [])) = rw_Code (handler_404 NewRecorder request_search)"
    using t by blast
  have y: "rw_Body (fst (recorder_run (env_plain\<lparr>lumberjack_Write := (\<lambda>bytes. Inl IoError)\<rparr>)
       handler_404 NewRecorder request_search [])) =
       rw_Body NewRecorder @ rw_Body (handler_404 NewRecorder request_search)"
    using t by blast
  show ?thesis
    using x y s h e by simp
qed

text \<open>
  C5 (as the claim states it) fails: a search request whose body cannot be read is
  not handed to the wrapped handler at all. The handler would answer 404 with the
  body \<open>nf\<close>; the client's writer is left as it was, with nothing written.
\<close>

theorem recorder_run_unreadable_counterexample:
  "rw_Code (handler_404 NewRecorder request_unreadable) = 404
   \<and> rw_Body (handler_404 NewRecorder request_unreadable) = ''nf''
   \<and> rw_wroteHeader (fst (recorder_run env_plain handler_404 NewRecorder request_unreadable [])) = False
   \<and> rw_Code (fst (recorder_run env_plain handler_404 NewRecorder request_unreadable [])) = 200
   \<and> rw_Body (fst (recorder_run env_plain handler_404 NewRecorder request_unreadable [])) = []"
  by (simp add: recorder_run_def recorder_def DumpRequest_def request_unreadable_def
      request_search_def Header_Get_def handler_404_def NewRecorder_def Write_body_def
      WriteHeader_def Let_def)

text \<open>
  C9 (as the code has it): a request whose \<open>X-Request-Category\<close> header is
  \<open>streams\<close> goes to the wrapped handler on the client's own writer, and nothing is
  recorded. Any other request that passes the recorder's guard (a category in the
  context and, unless it is ReactiveSearch, a readable body; in the earlier
  version, a readable body) is served on a fresh response recorder, copied to the
  client, and handed to the \<open>recordResponse\<close> goroutine. A request that fails the
  guard reaches neither the handler nor the goroutine.
\<close>

theorem recorder_streams_or_record:
  "(Header_Get (r_Header r) ''X-Request-Category'' = ''streams'' \<longrightarrow>
      recorder h w r = (h w r, None)
      \<and> recorder_arc env h w r = (h w r, None)
      \<and> recorder_run env h w r lumberjack = (h w r, lumberjack))
   \<and> (Header_Get (r_Header r) ''X-Request-Category'' \<noteq> ''streams''
        \<and> ctx_category r = Some reqCategory
        \<and> (reqCategory = ReactiveSearch \<or> r_Body r = Inr body) \<longrightarrow>
      (\<exists>dumpRequest. recorder h w r =
         (copy_response (h NewRecorder r) w, Some (h NewRecorder r, r, dumpRequest))
       \<and> recorder_run env h w r lumberjack =
         (copy_response (h NewRecorder r) w,
          recordResponse env (h NewRecorder r) r dumpRequest lumberjack)))
   \<and> (Header_Get (r_Header r) ''X-Request-Category'' \<noteq> ''streams''
        \<and> r_Body r = Inr body \<longrightarrow>
      (\<exists>request. recorder_arc env h w r =
         (copy_response (h NewRecorder r) w, Some (request, h NewRecorder r, r))))
   \<and> (Header_Get (r_Header r) ''X-Request-Category'' \<noteq> ''streams''
        \<and> r_Body r = Inl err \<and> ctx_category r \<noteq> Some ReactiveSearch \<longrightarrow>
      recorder h w r = (w, None)
      \<and> recorder_arc env h w r = (util_WriteBackError env w ''Can't read request body'' 500, None))"
proof (intro conjI impI)
  assume "Header_Get (r_Header r) ''X-Request-Category'' = ''streams''"
  then show "recorder h w r = (h w r, None)"
    and "recorder_arc env h w r = (h w r, None)"
    and "recorder_run env h w r lumberjack = (h w r, lumberjack)"
    by (simp_all add: recorder_def recorder_arc_def recorder_run_def)
next
  assume a: "Header_Get (r_Header r) ''X-Request-Category'' \<noteq> ''streams''
        \<and> ctx_category r = Some reqCategory
        \<and> (reqCategory = ReactiveSearch \<or> r_Body r = Inr body)"
  then have g: "recorder h w r =
     (copy_response (h NewRecorder r) w,
      Some (h NewRecorder r, r,
        if reqCategory = ReactiveSearch then [] else r_Head r @ CRLFCRLF @ body))"
    using recorder_guards_pass by blast
  show "\<exists>dumpRequest. recorder h w r =
         (copy_response (h NewRecorder r) w, Some (h NewRecorder r, r, dumpRequest))
       \<and> recorder_run env h w r lumberjack =
         (copy_response (h NewRecorder r) w,
          recordResponse env (h NewRecorder r) r dumpRequest lumberjack)"
    unfolding recorder_run_def g by simp
next
  assume "Header_Get (r_Header r) ''X-Request-Category'' \<noteq> ''streams'' \<and> r_Body r = Inr body"
  then show "\<exists>request. recorder_arc env h w r =
         (copy_response (h NewRecorder r) w, Some (request, h NewRecorder r, r))"
    by (simp add: recorder_arc_def Let_def)
next
  assume a: "Header_Get (r_Header r) ''X-Request-Category'' \<noteq> ''streams''
        \<and> r_Body r = Inl err \<and> ctx_category r \<noteq> Some ReactiveSearch"
  then show "recorder h w r = (w, None)"
    by (auto simp: recorder_def DumpRequest_def split: option.splits)
  from a show "recorder_arc env h w r =
      (util_WriteBackError env w ''Can't read request body'' 500, None)"
    by (simp add: recorder_arc_def)
qed

theorem recorder_streams_or_record_witness:
  "recorder handler_404 NewRecorder request_streams =
     (handler_404 NewRecorder request_streams, None)
   \<and> recorder_run env_plain handler_404 NewRecorder request_streams [] =
     (handler_404 NewRecorder request_streams, [])
   \<and> recorder_run env_plain handler_404 NewRecorder request_search [] =
     (copy_response (handler_404 NewRecorder request_search) NewRecorder, [''{}'', [CHR 0x0A]])
   \<and> snd (recorder_arc env_plain handler_404 NewRecorder request_search) =
     Some (\<lparr>req_URI = ''/books/_search'', req_Method = ''POST'', req_Headers = Map.empty,
             req_Body = ''{}''\<rparr>,
           handler_404 NewRecorder request_search, request_search)"
proof -
  have s: "Header_Get (r_Header request_streams) ''X-Request-Category'' = ''streams''"
    by (simp add: request_streams_def request_search_def Header_Get_def)
  have n: "Header_Get (r_Header request_search) ''X-Request-Category'' \<noteq> ''streams''"
    by (simp add: request_search_def Header_Get_def)
  have g: "Header_Get (r_Header request_search) ''X-Request-Category'' \<noteq> ''streams''
      \<and> ctx_category request_search = Some Search
      \<and> (Search = ReactiveSearch \<or> r_Body request_search = Inr ''{}'')"
    using n by (simp add: request_search_def)
  have l: "recorder_run env_plain handler_404 NewRecorder request_search [] =
     (copy_response (handler_404 NewRecorder request_search) NewRecorder, [''{}'', [CHR 0x0A]])"
    by (simp add: recorder_run_def recorder_def DumpRequest_def recordResponse_def
        recordResponse_record_def env_plain_def request_search_def Header_Get_def
        Result_Body_ReadAll_def slice_Min_take Split_def CRLFCRLF_def Let_def)
  have q: "snd (recorder_arc env_plain handler_404 NewRecorder request_search) =
     Some (\<lparr>req_URI = ''/books/_search'', req_Method = ''POST'', req_Headers = Map.empty,
             req_Body = ''{}''\<rparr>,
           handler_404 NewRecorder request_search, request_search)"
    by (simp add: recorder_arc_def request_search_def Header_Get_def slice_Min_take Let_def)
  from recorder_streams_or_record
    [of request_streams handler_404 NewRecorder env_plain "[]" Search "''{}''" IoError]
    s l q
  show ?thesis
    by simp
qed

text \<open>
  C9 (as the claim states it) fails: a request that is not of the streams category
  and whose body cannot be read is answered by the recorder of the earlier version
  with an error response; no response recorder is interposed, the wrapped handler
  does not run and no goroutine is started.
\<close>

theorem recorder_arc_unreadable_counterexample:
  "Header_Get (r_Header request_unreadable) ''X-Request-Category'' = []
   \<and> recorder_arc env_plain handler_404 NewRecorder request_unreadable =
       (Write_body ''Can't read request body'' (WriteHeader 500 NewRecorder), None)"
  by (simp add: recorder_arc_def request_unreadable_def request_search_def Header_Get_def
      env_plain_def)

lemma recordResponse_record_res_Body:
  "recordResponse_record env w r reqBody = Inr rec \<Longrightarrow>
   res_Body (rec_Response rec) = take 1000000 (rw_Body w)"
  by (auto simp: recordResponse_record_def Result_Body_ReadAll_def slice_Min_take Let_def
      split: option.splits sum.splits if_splits)

lemma recordResponse_record_req_Body_length:
  "recordResponse_record env w r reqBody = Inr rec \<Longrightarrow>
   length (req_Body (rec_Request rec)) \<le> 1000000"
  by (auto simp: recordResponse_record_def Result_Body_ReadAll_def slice_Min_take Let_def
      split: option.splits sum.splits if_splits)

lemma recordResponse_record_ReactiveSearch:
  "ctx_category r = Some ReactiveSearch \<Longrightarrow> ctx_request_json r = Inr marshalled \<Longrightarrow>
   recordResponse_record env w r reqBody = Inr rec \<Longrightarrow>
   req_Body (rec_Request rec) = take 1000000 marshalled"
  by (auto simp: recordResponse_record_def Result_Body_ReadAll_def slice_Min_take Let_def
      split: option.splits)

lemma recordResponse_record_dump:
  assumes "ctx_category r \<noteq> Some ReactiveSearch"
    and "\<not> Contains (head @ butlast CRLFCRLF) CRLFCRLF" and "\<not> Contains body CRLFCRLF"
    and "recordResponse_record env w r (head @ CRLFCRLF @ body) = Inr rec"
  shows "req_Body (rec_Request rec) = take 1000000 body"
  using assms(1,4) unfolding recordResponse_record_def Split_head_body [OF assms(2,3)]
  by (auto simp: Result_Body_ReadAll_def slice_Min_take Let_def split: option.splits)

lemma recordResponse_record_succeeds:
  "ctx_category r = Some reqCategory \<Longrightarrow> ctx_indices r = Some reqIndices \<Longrightarrow>
   reqCategory = ReactiveSearch \<longrightarrow> (\<exists>m. ctx_request_json r = Inr m) \<Longrightarrow>
   \<exists>rec. recordResponse_record env w r reqBody = Inr rec"
  by (auto simp: recordResponse_record_def Result_Body_ReadAll_def Let_def)

lemma recordResponse_arc_record_built:
  "recordResponse_arc_record env request w r = Inr rec \<Longrightarrow>
   res_Body (rec_Response rec) = take 1000000 (rw_Body w) \<and> rec_Request rec = request"
  by (auto simp: recordResponse_arc_record_def Result_Body_ReadAll_def slice_Min_take Let_def
      split: option.splits)

text \<open>
  C6 (as the code has it): in every record built, by either version, the response
  body field is the first min(length, 1,000,000) bytes of the recorded response
  body, and the request body field has at most 1,000,000 bytes. In the earlier
  version the request body field is the first min(length, 1,000,000) bytes of the
  request body. In the later version it is that prefix of the JSON marshalled from
  the context for a ReactiveSearch request, and of the request body for any other
  request whose dump has no blank line but the one before the body. No size of a
  body makes the record fail: it is built whenever the context holds the category
  and the indices (and, for ReactiveSearch, the marshalling succeeds).
\<close>

theorem record_bodies_truncated:
  "(\<forall>rec. recordResponse_record env w r reqBody = Inr rec \<longrightarrow>
       res_Body (rec_Response rec) = take 1000000 (rw_Body w)
       \<and> length (req_Body (rec_Request rec)) \<le> 1000000)
   \<and> (\<forall>rec. recordResponse_arc_record env request w r = Inr rec \<longrightarrow>
       res_Body (rec_Response rec) = take 1000000 (rw_Body w) \<and> rec_Request rec = request)
   \<and> (Header_Get (r_Header r) ''X-Request-Category'' \<noteq> ''streams'' \<and> r_Body r = Inr body \<longrightarrow>
       (\<exists>request'. snd (recorder_arc env h w' r) = Some (request', h NewRecorder r, r)
          \<and> req_Body request' = take 1000000 body))
   \<and> (\<forall>rec. ctx_category r = Some ReactiveSearch \<and> ctx_request_json r = Inr marshalled
          \<and> recordResponse_record env w r reqBody = Inr rec \<longrightarrow>
       req_Body (rec_Request rec) = take 1000000 marshalled)
   \<and> (\<forall>rec. ctx_category r \<noteq> Some ReactiveSearch
          \<and> \<not> Contains (head @ butlast CRLFCRLF) CRLFCRLF \<and> \<not> Contains body CRLFCRLF
          \<and> recordResponse_record env w r (head @ CRLFCRLF @ body) = Inr rec \<longrightarrow>
       req_Body (rec_Request rec) = take 1000000 body)
   \<and> (ctx_category r = Some reqCategory \<and> ctx_indices r = Some reqIndices
        \<and> (reqCategory = ReactiveSearch \<longrightarrow> (\<exists>m. ctx_request_json r = Inr m)) \<longrightarrow>
       (\<exists>rec. recordResponse_record env w r reqBody = Inr rec))
   \<and> (ctx_category r = Some reqCategory \<and> ctx_indices r = Some reqIndices \<longrightarrow>
       (\<exists>rec. recordResponse_arc_record env request w r = Inr rec))"
proof (intro conjI allI impI)
  fix rec
  assume "recordResponse_record env w r reqBody = Inr rec"
  then show "res_Body (rec_Response rec) = take 1000000 (rw_Body w)"
    and "length (req_Body (rec_Request rec)) \<le> 1000000"
    by (rule recordResponse_record_res_Body, rule recordResponse_record_req_Body_length)
next
  fix rec
  assume "recordResponse_arc_record env request w r = Inr rec"
  then show "res_Body (rec_Response rec) = take 1000000 (rw_Body w)"
    and "rec_Request rec = request"
    using recordResponse_arc_record_built by blast+
next
  assume "Header_Get (r_Header r) ''X-Request-Category'' \<noteq> ''streams'' \<and> r_Body r = Inr body"
  then show "\<exists>request'. snd (recorder_arc env h w' r) = Some (request', h NewRecorder r, r)
          \<and> req_Body request' = take 1000000 body"
    by (simp add: recorder_arc_def slice_Min_take Let_def)
next
  fix rec
  assume "ctx_category r = Some ReactiveSearch \<and> ctx_request_json r = Inr marshalled
          \<and> recordResponse_record env w r reqBody = Inr rec"
  then show "req_Body (rec_Request rec) = take 1000000 marshalled"
    using recordResponse_record_ReactiveSearch by blast
next
  fix rec
  assume "ctx_category r \<noteq> Some ReactiveSearch
          \<and> \<not> Contains (head @ butlast CRLFCRLF) CRLFCRLF \<and> \<not> Contains body CRLFCRLF
          \<and> recordResponse_record env w r (head @ CRLFCRLF @ body) = Inr rec"
  then show "req_Body (rec_Request rec) = take 1000000 body"
    using recordResponse_record_dump by blast
next
  assume "ctx_category r = Some reqCategory \<and> ctx_indices r = Some reqIndices
        \<and> (reqCategory = ReactiveSearch \<longrightarrow> (\<exists>m. ctx_request_json r = Inr m))"
  then show "\<exists>rec. recordResponse_record env w r reqBody = Inr rec"
    using recordResponse_record_succeeds by blast
next
  assume "ctx_category r = Some reqCategory \<and> ctx_indices r = Some reqIndices"
  then show "\<exists>rec. recordResponse_arc_record env request w r = Inr rec"
    by (auto simp: recordResponse_arc_record_def Result_Body_ReadAll_def Let_def)
qed

theorem record_bodies_truncated_witness:
  "map_sum id (\<lambda>rec. (req_Body (rec_Request rec), res_Body (rec_Response rec)))
     (recordResponse_record env_plain (handler_404 NewRecorder request_search) request_search
        (r_Head request_search @ CRLFCRLF @ ''{}'')) = Inr (''{}'', ''nf'')"
proof -
  note t = record_bodies_truncated
    [where env = env_plain and w = "handler_404 NewRecorder request_search"
       and r = request_search and head = "r_Head request_search" and body = "''{}''"
       and reqBody = "r_Head request_search @ CRLFCRLF @ ''{}''"
       and reqCategory = Search and reqIndices = "[''books'']"
       and h = handler_404 and w' = NewRecorder and marshalled = "[]"
       and request = "\<lparr>req_URI = [], req_Method = [], req_Headers = Map.empty, req_Body = []\<rparr>"]
  have c: "ctx_category request_search = Some Search \<and> ctx_indices request_search = Some [''books'']
      \<and> ctx_category request_search \<noteq> Some ReactiveSearch"
    by (simp add: request_search_def)
  have n: "\<not> Contains (r_Head request_search @ butlast CRLFCRLF) CRLFCRLF
      \<and> \<not> Contains ''{}'' CRLFCRLF"
    by (simp add: request_search_def CRLFCRLF_def)
  have b: "rw_Body (handler_404 NewRecorder request_search) = ''nf''"
    by (simp add: handler_404_def NewRecorder_def Write_body_def WriteHeader_def Let_def)
  from t c obtain rec where
    r: "recordResponse_record env_plain (handler_404 NewRecorder request_search) request_search
        (r_Head request_search @ CRLFCRLF @ ''{}'') = Inr rec"
    by blast
  from t r have "res_Body (rec_Response rec) = take 1000000 (rw_Body (handler_404 NewRecorder request_search))"
    by blast
  moreover from t r c n have "req_Body (rec_Request rec) = take 1000000 ''{}''"
    by blast
  ultimately show ?thesis
    using r b by simp
qed

text \<open>
  C6 (as the claim states it) fails in the later version: the request body
  recorded for a ReactiveSearch request is the JSON marshalled from the context
  (here \<open>{}\<close> for the body \<open>{ }\<close>), and the request body recorded for any other
  request ends at the first blank line in it (here \<open>a\<close> for a body of six bytes).
\<close>

theorem record_request_body_counterexample:
  "r_Body request_rs = Inr ''{ }''
   \<and> map_sum id (\<lambda>rec. req_Body (rec_Request rec))
       (recordResponse_record env_plain (handler_404 NewRecorder request_rs) request_rs []) =
     Inr ''{}''
   \<and> r_Body request_blank_line = Inr (''a'' @ CRLFCRLF @ ''b'')
   \<and> recorder handler_404 NewRecorder request_blank_line =
       (copy_response (handler_404 NewRecorder request_blank_line) NewRecorder,
        Some (handler_404 NewRecorder request_blank_line, request_blank_line,
          r_Head request_blank_line @ CRLFCRLF @ ''a'' @ CRLFCRLF @ ''b''))
   \<and> map_sum id (\<lambda>rec. req_Body (rec_Request rec))
       (recordResponse_record env_plain (handler_404 NewRecorder request_blank_line)
          request_blank_line (r_Head request_blank_line @ CRLFCRLF @ ''a'' @ CRLFCRLF @ ''b'')) =
     Inr ''a''"
  by (simp add: recordResponse_record_def recorder_def DumpRequest_def request_rs_def
      request_blank_line_def request_search_def Header_Get_def Result_Body_ReadAll_def
      slice_Min_take Split_def CRLFCRLF_def Let_def)

lemma hashPasswords_users_frame:
  "snd (hashPasswords_users env users index) k = index k
   \<or> (\<exists>u \<in> set users. Username u = k \<and> PasswordHashType u = [])"
proof (induction users arbitrary: index)
  case Nil
  then show ?case by simp
next
  case (Cons user users)
  show ?case
  proof (cases "PasswordHashType user \<noteq> []")
    case True
    with Cons.IH [of index] show ?thesis by auto
  next
    case False
    show ?thesis
    proof (cases "patchUser env index (Username user)
        [(''password'', case bcrypt_GenerateFromPassword env (Password user) of
            Inl err \<Rightarrow> [] | Inr hash \<Rightarrow> hash), (''password_hash_type'', ''bcrypt'')]")
      case (Inl err)
      with False show ?thesis by simp
    next
      case (Inr index')
      then have i: "\<forall>k. k \<noteq> Username user \<longrightarrow> index' k = index k"
        by (auto simp: patchUser_def split: option.splits)
      from False Inr have "snd (hashPasswords_users env (user # users) index) k =
          snd (hashPasswords_users env users index') k"
        by simp
      with Cons.IH [of index'] i False show ?thesis
        by (cases "k = Username user") auto
    qed
  qed
qed

lemma hashPasswords_users_result:
  assumes "\<forall>u \<in> set users. index (Username u) = Some u"
    and "distinct (map Username users)"
    and "hashPasswords_users env users index = (Inr (), index')"
  shows "\<forall>u \<in> set users. PasswordHashType u = [] \<longrightarrow>
           index' (Username u) =
             Some (u\<lparr>Password := (case bcrypt_GenerateFromPassword env (Password u) of
                                   Inl err \<Rightarrow> [] | Inr hash \<Rightarrow> hash),
                     PasswordHashType := ''bcrypt''\<rparr>)"
  using assms
proof (induction users arbitrary: index)
  case Nil
  then show ?case by simp
next
  case (Cons user users)
  show ?case
  proof (cases "PasswordHashType user \<noteq> []")
    case True
    from Cons.prems True have "hashPasswords_users env users index = (Inr (), index')"
      by simp
    with Cons.IH [of index] Cons.prems(1,2) True show ?thesis
      by auto
  next
    case False
    define patched where "patched = user\<lparr>Password :=
        (case bcrypt_GenerateFromPassword env (Password user) of Inl err \<Rightarrow> [] | Inr hash \<Rightarrow> hash),
        PasswordHashType := ''bcrypt''\<rparr>"
    from Cons.prems(1) have s: "index (Username user) = Some user"
      by simp
    from Cons.prems(3) False s have u: "es_Update_error env (Username user) = None"
      by (auto simp: patchUser_def split: option.splits)
    with s have p: "patchUser env index (Username user)
        [(''password'', case bcrypt_GenerateFromPassword env (Password user) of
            Inl err \<Rightarrow> [] | Inr hash \<Rightarrow> hash), (''password_hash_type'', ''bcrypt'')] =
        Inr (index(Username user \<mapsto> patched))"
      by (simp add: patchUser_def patched_def)
    with Cons.prems(3) False
    have r: "hashPasswords_users env users (index(Username user \<mapsto> patched)) = (Inr (), index')"
      by simp
    from Cons.prems(2) have d: "distinct (map Username users)"
      and n: "\<forall>u \<in> set users. Username u \<noteq> Username user"
      by (auto simp: image_iff)
    from Cons.prems(1) n
    have w: "\<forall>u \<in> set users. (index(Username user \<mapsto> patched)) (Username u) = Some u"
      by simp
    from Cons.IH [OF w d r]
    have t: "\<forall>u \<in> set users. PasswordHashType u = [] \<longrightarrow>
           index' (Username u) =
             Some (u\<lparr>Password := (case bcrypt_GenerateFromPassword env (Password u) of
                                   Inl err \<Rightarrow> [] | Inr hash \<Rightarrow> hash),
                     PasswordHashType := ''bcrypt''\<rparr>)" .
    from n have "\<not> (\<exists>u \<in> set users. Username u = Username user \<and> PasswordHashType u = [])"
      by auto
    with hashPasswords_users_frame [of env users "index(Username user \<mapsto> patched)" "Username user"] r
    have "index' (Username user) = Some patched"
      by simp
    with t show ?thesis
      by (simp add: patched_def)
  qed
qed

lemma hashPasswords_users_succeeds:
  assumes "\<forall>u \<in> set users. index (Username u) = Some u"
    and "distinct (map Username users)"
    and "\<forall>u \<in> set users. PasswordHashType u = [] \<longrightarrow> es_Update_error env (Username u) = None"
  shows "fst (hashPasswords_users env users index) = Inr ()"
  using assms
proof (induction users arbitrary: index)
  case Nil
  then show ?case by simp
next
  case (Cons user users)
  from Cons.prems(2) have d: "distinct (map Username users)"
    and n: "\<forall>u \<in> set users. Username u \<noteq> Username user"
    by (auto simp: image_iff)
  from Cons.prems(3)
  have e: "\<forall>u \<in> set users. PasswordHashType u = [] \<longrightarrow> es_Update_error env (Username u) = None"
    by simp
  show ?case
  proof (cases "PasswordHashType user \<noteq> []")
    case True
    from Cons.prems(1) have "\<forall>u \<in> set users. index (Username u) = Some u"
      by simp
    from Cons.IH [OF this d e] True show ?thesis
      by simp
  next
    case False
    define patched where "patched = user\<lparr>Password :=
        (case bcrypt_GenerateFromPassword env (Password user) of Inl err \<Rightarrow> [] | Inr hash \<Rightarrow> hash),
        PasswordHashType := ''bcrypt''\<rparr>"
    from Cons.prems(1) have s: "index (Username user) = Some user"
      by simp
    from Cons.prems(3) False have "es_Update_error env (Username user) = None"
      by simp
    with s have p: "patchUser env index (Username user)
        [(''password'', case bcrypt_GenerateFromPassword env (Password user) of
            Inl err \<Rightarrow> [] | Inr hash \<Rightarrow> hash), (''password_hash_type'', ''bcrypt'')] =
        Inr (index(Username user \<mapsto> patched))"
      by (simp add: patchUser_def patched_def)
    from Cons.prems(1) n
    have w: "\<forall>u \<in> set users. (index(Username user \<mapsto> patched)) (Username u) = Some u"
      by simp
    from False p have r: "hashPasswords_users env (user # users) index =
        hashPasswords_users env users (index(Username user \<mapsto> patched))"
      by simp
    show ?thesis
      unfolding r by (rule Cons.IH [OF w d e])
  qed
qed

text \<open>
  C7 (as the code has it): with \<open>users\<close> the users that the search for all users
  returns, each of them the document stored under its username. A user whose
  hash-algorithm tag is not empty is left as it is, on every outcome, and so is
  every document that the search did not return. When the update request
  succeeds for each returned user whose tag is empty, \<open>hashPasswords\<close> returns
  without error, and each of these users whose password bcrypt hashed has that
  hash as its password and the tag \<open>bcrypt\<close>.
\<close>

theorem hashPasswords_migrates_returned_users:
  assumes "es_Search env = Inr sources"
    and "json_Unmarshal_users env sources = Inr users"
    and "\<forall>u \<in> set users. index (Username u) = Some u"
    and "distinct (map Username users)"
  shows "(\<forall>u \<in> set users. PasswordHashType u \<noteq> [] \<longrightarrow>
            snd (hashPasswords env index) (Username u) = Some u)
       \<and> (\<forall>k. k \<notin> Username ` set users \<longrightarrow> snd (hashPasswords env index) k = index k)
       \<and> ((\<forall>u \<in> set users. PasswordHashType u = [] \<longrightarrow> es_Update_error env (Username u) = None) \<longrightarrow>
            fst (hashPasswords env index) = Inr ()
            \<and> (\<forall>u \<in> set users. \<forall>hash.
                 PasswordHashType u = [] \<and> bcrypt_GenerateFromPassword env (Password u) = Inr hash \<longrightarrow>
                 snd (hashPasswords env index) (Username u) =
                   Some (u\<lparr>Password := hash, PasswordHashType := ''bcrypt''\<rparr>)))"
proof -
  have h: "hashPasswords env index = hashPasswords_users env users index"
    using assms(1,2) by (simp add: hashPasswords_def getRawUsers_def)
  have a: "\<forall>u \<in> set users. PasswordHashType u \<noteq> [] \<longrightarrow>
      snd (hashPasswords_users env users index) (Username u) = Some u"
  proof (intro ballI impI)
    fix u
    assume u: "u \<in> set users" and t: "PasswordHashType u \<noteq> []"
    from assms(4) u have "\<forall>v \<in> set users. Username v = Username u \<longrightarrow> v = u"
      by (meson distinct_map inj_onD)
    with t have "\<not> (\<exists>v \<in> set users. Username v = Username u \<and> PasswordHashType v = [])"
      by auto
    with hashPasswords_users_frame [of env users index "Username u"] assms(3) u
    show "snd (hashPasswords_users env users index) (Username u) = Some u"
      by auto
  qed
  have c: "\<forall>k. k \<notin> Username ` set users \<longrightarrow>
      snd (hashPasswords_users env users index) k = index k"
    using hashPasswords_users_frame [of env users index] by blast
  have b: "(\<forall>u \<in> set users. PasswordHashType u = [] \<longrightarrow> es_Update_error env (Username u) = None) \<longrightarrow>
      fst (hashPasswords_users env users index) = Inr ()
      \<and> (\<forall>u \<in> set users. \<forall>hash.
           PasswordHashType u = [] \<and> bcrypt_GenerateFromPassword env (Password u) = Inr hash \<longrightarrow>
           snd (hashPasswords_users env users index) (Username u) =
             Some (u\<lparr>Password := hash, PasswordHashType := ''bcrypt''\<rparr>))"
  proof (intro impI conjI ballI allI)
    assume e: "\<forall>u \<in> set users. PasswordHashType u = [] \<longrightarrow> es_Update_error env (Username u) = None"
    from hashPasswords_users_succeeds [OF assms(3,4) e]
    show f: "fst (hashPasswords_users env users index) = Inr ()" .
    fix u hash
    assume u: "u \<in> set users"
      and p: "PasswordHashType u = [] \<and> bcrypt_GenerateFromPassword env (Password u) = Inr hash"
    from f have "hashPasswords_users env users index =
        (Inr (), snd (hashPasswords_users env users index))"
      by (metis prod.collapse)
    from hashPasswords_users_result [OF assms(3,4) this] u p
    show "snd (hashPasswords_users env users index) (Username u) =
        Some (u\<lparr>Password := hash, PasswordHashType := ''bcrypt''\<rparr>)"
      by auto
  qed
  from a b c show ?thesis
    unfolding h by blast
qed

theorem hashPasswords_migrates_returned_users_witness:
  "fst (hashPasswords users_env_plain users_index_two) = Inr ()
   \<and> snd (hashPasswords users_env_plain users_index_two) ''alice'' =
       Some \<lparr>Username = ''alice'', Password = ''$2a$terces'', PasswordHashType = ''bcrypt'',
              IsAdmin = False\<rparr>
   \<and> snd (hashPasswords users_env_plain users_index_two) ''bob'' = Some user_bob"
proof -
  have s: "es_Search users_env_plain = Inr [''alice'', ''bob'']"
    and j: "json_Unmarshal_users users_env_plain [''alice'', ''bob''] = Inr [user_alice, user_bob]"
    by (simp_all add: users_env_plain_def)
  have w: "\<forall>u \<in> set [user_alice, user_bob]. users_index_two (Username u) = Some u"
    by (simp add: users_index_two_def user_alice_def user_bob_def)
  have d: "distinct (map Username [user_alice, user_bob])"
    by (simp add: user_alice_def user_bob_def)
  have e: "\<forall>u \<in> set [user_alice, user_bob]. PasswordHashType u = [] \<longrightarrow>
      es_Update_error users_env_plain (Username u) = None"
    by (simp add: users_env_plain_def)
  have b: "PasswordHashType user_alice = []
      \<and> bcrypt_GenerateFromPassword users_env_plain (Password user_alice) = Inr ''$2a$terces''"
    by (simp add: users_env_plain_def user_alice_def)
  have t: "PasswordHashType user_bob \<noteq> []"
    by (simp add: user_bob_def)
  note m = hashPasswords_migrates_returned_users [OF s j w d]
  from m e have f: "fst (hashPasswords users_env_plain users_index_two) = Inr ()"
    by blast
  from m t have "snd (hashPasswords users_env_plain users_index_two) (Username user_bob) = Some user_bob"
    by simp
  moreover from m e b
  have "snd (hashPasswords users_env_plain users_index_two) (Username user_alice) =
      Some (user_alice\<lparr>Password := ''$2a$terces'', PasswordHashType := ''bcrypt''\<rparr>)"
    by (metis list.set_intros(1))
  ultimately show ?thesis
    using f by (simp add: user_alice_def user_bob_def)
qed

text \<open>
  C7 (as the claim states it) fails. When the update request fails, the function
  returns the error and the user with the empty tag keeps the plain password; and
  when the search returns the hashed user only, the function returns without
  error and the user with the empty tag, whom it did not return, keeps the plain
  password.
\<close>

theorem hashPasswords_unmigrated_counterexample:
  "PasswordHashType user_alice = []
   \<and> users_index_two ''alice'' = Some user_alice
   \<and> hashPasswords users_env_update_fails users_index_two = (Inl EsError, users_index_two)
   \<and> fst (hashPasswords users_env_one_hit users_index_two) = Inr ()
   \<and> snd (hashPasswords users_env_one_hit users_index_two) ''alice'' = Some user_alice"
  by (simp add: hashPasswords_def getRawUsers_def users_env_update_fails_def
      users_env_one_hit_def users_env_plain_def users_index_two_def user_alice_def user_bob_def
      patchUser_def Let_def)






end
